theory Spec2Isabelle
  imports Complex_Main
begin

section \<open>Data model\<close>

text \<open>
  The entities the frontend receives from the backend (parsed JSON bodies). Columnar
  particle arrays stay columnar, as the code indexes them. Numbers that the code only
  stores are reals or naturals; JavaScript identifiers that clash with HOL constants are
  suffixed or prefixed (\<open>config_id\<close> for \<open>id\<close>, \<open>shell_length\<close> for \<open>length\<close>).
\<close>

record particles =
  px :: "real list"
  py :: "real list"
  pz :: "real list"
  energy :: "real list"
  pdg_id :: "int list"

text \<open>\<open>particles\<close> may be absent from an event payload: \<open>None\<close> is the missing key.\<close>

record event =
  event_id :: string
  num_particles :: nat
  particles :: "particles option"

record kinematics =
  invariant_mass :: "real option"
  missing_et :: "real option"
  scalar_ht :: "real option"
  num_jets :: "nat option"
  num_leptons :: "nat option"

text \<open>The pair \<open>{event, kinematics}\<close> that \<open>GET /events/{id}\<close> returns and the event list holds.\<close>

record event_entry =
  entry_event :: event
  entry_kinematics :: "kinematics option"

record events_response =
  events_of :: "event_entry list"

record shell =
  inner_radius :: real
  outer_radius :: real
  shell_length :: real

record geometry =
  tracker :: shell
  ecal :: shell
  hcal :: shell

record detector_config =
  config_id :: nat
  name :: string
  description :: string
  magnetic_field :: real
  geometry :: geometry
  is_active :: bool
  created_at :: string

record statistics =
  total_events :: nat
  events_with_leptons :: nat
  events_with_jets :: nat
  average_invariant_mass :: "real option"

text \<open>A thrown JavaScript error; the store reads only its \<open>message\<close>.\<close>

record js_error =
  message :: string

section \<open>Reactive state store (store/index.js)\<close>

record ui_state =
  currentEvent :: "event_entry option"
  events :: "event_entry list"
  statistics :: "statistics option"
  detectorConfig :: "detector_config option"
  loading :: bool
  error :: "string option"

definition initial_state :: ui_state where
  "initial_state =
     \<lparr>currentEvent = None, events = [], statistics = None, detectorConfig = None,
      loading = False, error = None\<rparr>"

text \<open>The six mutations, each with its payload.\<close>

datatype mutation =
    SET_CURRENT_EVENT "event_entry option"
  | SET_EVENTS "event_entry list"
  | SET_STATISTICS "statistics option"
  | SET_DETECTOR_CONFIG "detector_config option"
  | SET_LOADING bool
  | SET_ERROR "string option"

fun mutate :: "ui_state \<Rightarrow> mutation \<Rightarrow> ui_state" where
  "mutate s (SET_CURRENT_EVENT e) = s\<lparr>currentEvent := e\<rparr>"
| "mutate s (SET_EVENTS es) = s\<lparr>events := es\<rparr>"
| "mutate s (SET_STATISTICS st) = s\<lparr>statistics := st\<rparr>"
| "mutate s (SET_DETECTOR_CONFIG c) = s\<lparr>detectorConfig := c\<rparr>"
| "mutate s (SET_LOADING l) = s\<lparr>loading := l\<rparr>"
| "mutate s (SET_ERROR e) = s\<lparr>error := e\<rparr>"

text \<open>
  The store: the state together with the record of the commits performed so far (oldest
  first). \<open>commit\<close> applies a mutation and records it.
\<close>

record store =
  state :: ui_state
  committed :: "mutation list"

definition initial_store :: store where
  "initial_store = \<lparr>state = initial_state, committed = []\<rparr>"

definition commit :: "store \<Rightarrow> mutation \<Rightarrow> store" where
  "commit st m = \<lparr>state = mutate (state st) m, committed = committed st @ [m]\<rparr>"

text \<open>
  A step of an action takes the store and returns how it completed (\<open>Inl\<close>: an error is
  thrown, \<open>Inr\<close>: normal completion) with the store it leaves.
  \<open>try_catch\<close> and \<open>try_catch_finally\<close> are the JavaScript statements: the handler runs on
  the store the body left when it threw, the finaliser runs on every path, and an error
  thrown by the handler propagates after the finaliser.
\<close>

type_synonym step = "store \<Rightarrow> (js_error + unit) \<times> store"

definition try_catch :: "step \<Rightarrow> (js_error \<Rightarrow> step) \<Rightarrow> step" where
  "try_catch body handler st =
     (case body st of
        (Inr u, st1) \<Rightarrow> (Inr u, st1)
      | (Inl e, st1) \<Rightarrow> handler e st1)"

definition try_catch_finally :: "step \<Rightarrow> (js_error \<Rightarrow> step) \<Rightarrow> (store \<Rightarrow> store) \<Rightarrow> step" where
  "try_catch_finally body handler finaliser st =
     (case try_catch body handler st of (r, st2) \<Rightarrow> (r, finaliser st2))"

text \<open>
  Each action takes the settled result of the Data Client promise it awaits: \<open>Inl\<close> the
  rejection, \<open>Inr\<close> the parsed body.
\<close>

definition fetchEvent :: "(js_error + event_entry) \<Rightarrow> step" where
  "fetchEvent getEvent_result st =
     (let st = commit st (SET_LOADING True);
          st = commit st (SET_ERROR None)
      in try_catch_finally
           (\<lambda>st. case getEvent_result of
                    Inl e \<Rightarrow> (Inl e, st)
                  | Inr event \<Rightarrow> (Inr (), commit st (SET_CURRENT_EVENT (Some event))))
           (\<lambda>error st. (Inr (), commit st (SET_ERROR (Some (message error)))))
           (\<lambda>st. commit st (SET_LOADING False))
           st)"

definition fetchEvents :: "(js_error + events_response) \<Rightarrow> step" where
  "fetchEvents getEvents_result st =
     (let st = commit st (SET_LOADING True);
          st = commit st (SET_ERROR None)
      in try_catch_finally
           (\<lambda>st. case getEvents_result of
                    Inl e \<Rightarrow> (Inl e, st)
                  | Inr response \<Rightarrow> (Inr (), commit st (SET_EVENTS (events_of response))))
           (\<lambda>error st. (Inr (), commit st (SET_ERROR (Some (message error)))))
           (\<lambda>st. commit st (SET_LOADING False))
           st)"

definition fetchStatistics :: "(js_error + statistics) \<Rightarrow> step" where
  "fetchStatistics getStatistics_result st =
     try_catch
       (\<lambda>st. case getStatistics_result of
                Inl e \<Rightarrow> (Inl e, st)
              | Inr stats \<Rightarrow> (Inr (), commit st (SET_STATISTICS (Some stats))))
       (\<lambda>error st. (Inr (), commit st (SET_ERROR (Some (message error)))))
       st"

text \<open>
  The body of \<open>getDetectorConfigs\<close> may be \<open>null\<close> (\<open>None\<close>); the action tests
  \<open>configs && configs.length > 0\<close>. \<open>configs.find(c => c.is_active) || configs[0]\<close> is
  the first active config, else the first config.
\<close>

definition fetchDetectorConfigs :: "(js_error + detector_config list option) \<Rightarrow> step" where
  "fetchDetectorConfigs getDetectorConfigs_result st =
     try_catch
       (\<lambda>st. case getDetectorConfigs_result of
                Inl e \<Rightarrow> (Inl e, st)
              | Inr None \<Rightarrow> (Inr (), st)
              | Inr (Some configs) \<Rightarrow>
                  if length configs > 0 then
                    (let activeConfig =
                           (case List.find is_active configs of
                              Some c \<Rightarrow> c
                            | None \<Rightarrow> configs ! 0)
                     in (Inr (), commit st (SET_DETECTOR_CONFIG (Some activeConfig))))
                  else (Inr (), st))
       (\<lambda>error st. (Inr (), commit st (SET_ERROR (Some (message error)))))
       st"

section \<open>JavaScript numbers\<close>

text \<open>
  A JavaScript number is modelled as a real or \<open>NaN\<close>: IEEE rounding and the infinities are
  outside the model. Reading an array beyond its end gives \<open>undefined\<close>, which every
  arithmetic use below turns into \<open>NaN\<close>; \<open>NaN\<close> propagates through every operation.
  The theorems on the scene renderer are therefore about the formulas the code computes,
  not about the rounding of their binary64 values.
  No divisor in the modelled code is zero (they are the literals 50, 20 and 10); division
  by zero, which would give an infinity, is mapped to \<open>NaN\<close> to keep the function total.
\<close>

datatype jsnum = Num real | NaN

fun js_add :: "jsnum \<Rightarrow> jsnum \<Rightarrow> jsnum" where
  "js_add (Num a) (Num b) = Num (a + b)"
| "js_add _ _ = NaN"

fun js_mul :: "jsnum \<Rightarrow> jsnum \<Rightarrow> jsnum" where
  "js_mul (Num a) (Num b) = Num (a * b)"
| "js_mul _ _ = NaN"

fun js_div :: "jsnum \<Rightarrow> jsnum \<Rightarrow> jsnum" where
  "js_div (Num a) (Num b) = (if b = 0 then NaN else Num (a / b))"
| "js_div _ _ = NaN"

fun Math_sqrt :: "jsnum \<Rightarrow> jsnum" where
  "Math_sqrt (Num a) = (if a < 0 then NaN else Num (sqrt a))"
| "Math_sqrt NaN = NaN"

fun Math_cos :: "jsnum \<Rightarrow> jsnum" where
  "Math_cos (Num a) = Num (cos a)"
| "Math_cos NaN = NaN"

fun Math_sin :: "jsnum \<Rightarrow> jsnum" where
  "Math_sin (Num a) = Num (sin a)"
| "Math_sin NaN = NaN"

fun Math_abs :: "jsnum \<Rightarrow> jsnum" where
  "Math_abs (Num a) = Num \<bar>a\<bar>"
| "Math_abs NaN = NaN"

fun Math_min :: "jsnum \<Rightarrow> jsnum \<Rightarrow> jsnum" where
  "Math_min (Num a) (Num b) = Num (min a b)"
| "Math_min _ _ = NaN"

text \<open>The two-argument arctangent: the angle of the point \<open>(x, y)\<close> in \<open>(-\<pi>, \<pi>]\<close>.\<close>

definition atan2 :: "real \<Rightarrow> real \<Rightarrow> real" where
  "atan2 y x =
     (if x > 0 then arctan (y / x)
      else if x < 0 \<and> y \<ge> 0 then arctan (y / x) + pi
      else if x < 0 \<and> y < 0 then arctan (y / x) - pi
      else if y > 0 then pi / 2
      else if y < 0 then - pi / 2
      else 0)"

fun Math_atan2 :: "jsnum \<Rightarrow> jsnum \<Rightarrow> jsnum" where
  "Math_atan2 (Num y) (Num x) = Num (atan2 y x)"
| "Math_atan2 _ _ = NaN"

definition arr_get :: "real list \<Rightarrow> nat \<Rightarrow> jsnum" where
  "arr_get xs i = (if i < length xs then Num (xs ! i) else NaN)"

section \<open>Scene renderer (components/EventDisplay3D.vue)\<close>

datatype vector3 = Vector3 (vx: jsnum) (vy: jsnum) (vz: jsnum)

text \<open>
  The children of the scene. A child is known by its attributes: two children equal in
  every attribute are interchangeable, and removing one of them is removing one occurrence.
  A mesh that is never positioned sits at the engine's default position, the origin.
\<close>

datatype scene_object =
    AmbientLight nat real
  | DirectionalLight nat real
  | GridHelper nat nat
  | AxesHelper nat
  | DetectorShell (shell_radius: real) (shell_height: real) (shell_color: nat) (shell_opacity: real)
  | TrackLine (line_points: "vector3 list") (line_color: nat)
  | SphereMesh (sphere_radius: real) (mesh_color: nat) (mesh_position: vector3)

fun is_per_event :: "scene_object \<Rightarrow> bool" where
  "is_per_event (TrackLine _ _) = True"
| "is_per_event (SphereMesh _ _ _) = True"
| "is_per_event _ = False"

text \<open>The \<open>canvasContainer\<close> element and the two engine objects the component disposes.\<close>

record container =
  clientWidth :: real
  clientHeight :: real

record renderer =
  renderer_size :: "real \<times> real"
  renderer_disposed :: bool
  frames_rendered :: nat

record controls =
  enableDamping :: bool
  dampingFactor :: real
  controls_updates :: nat
  controls_disposed :: bool

record camera =
  camera_position :: "real \<times> real \<times> real"

text \<open>
  The component's \<open>data()\<close>. \<open>scene\<close> holds the children of the scene, \<open>None\<close> while the
  field is \<open>null\<close>. The props (\<open>event\<close>, \<open>detectorConfig\<close>) are arguments of the methods.
\<close>

record component =
  scene :: "scene_object list option"
  camera :: "camera option"
  renderer :: "renderer option"
  controls :: "controls option"
  showDetector :: bool
  detectorMeshes :: "scene_object list"
  particleMeshes :: "scene_object list"

definition initial_component :: component where
  "initial_component =
     \<lparr>scene = None, camera = None, renderer = None, controls = None, showDetector = True,
      detectorMeshes = [], particleMeshes = []\<rparr>"

text \<open>
  The browser side: the listeners registered on \<open>window\<close> for \<open>resize\<close> and the callbacks
  waiting for the next animation frame.
\<close>

datatype handler = OnWindowResize | Animate

record window =
  resizeListeners :: "handler list"
  animationFrames :: "handler list"

definition initial_window :: window where
  "initial_window = \<lparr>resizeListeners = [], animationFrames = []\<rparr>"

definition TypeError :: js_error where
  "TypeError = \<lparr>message = ''TypeError''\<rparr>"

text \<open>\<open>this.scene.add(obj)\<close> and \<open>this.scene.remove(obj)\<close>: a \<open>null\<close> scene throws.\<close>

definition scene_add :: "scene_object \<Rightarrow> component \<Rightarrow> js_error + component" where
  "scene_add obj c =
     (case scene c of
        None \<Rightarrow> Inl TypeError
      | Some children \<Rightarrow> Inr (c\<lparr>scene := Some (children @ [obj])\<rparr>))"

definition scene_remove :: "scene_object \<Rightarrow> component \<Rightarrow> js_error + component" where
  "scene_remove obj c =
     (case scene c of
        None \<Rightarrow> Inl TypeError
      | Some children \<Rightarrow> Inr (c\<lparr>scene := Some (remove1 obj children)\<rparr>))"

text \<open>\<open>xs.forEach(f)\<close> on the component: left to right, stopping at the first throw.\<close>

fun forEach :: "'a list \<Rightarrow> ('a \<Rightarrow> component \<Rightarrow> js_error + component) \<Rightarrow> component
    \<Rightarrow> js_error + component" where
  "forEach [] f c = Inr c"
| "forEach (x # xs) f c = (case f x c of Inl e \<Rightarrow> Inl e | Inr c' \<Rightarrow> forEach xs f c')"

definition numPoints :: nat where
  "numPoints = 50"

definition maxR :: jsnum where
  "maxR = Num 3.0"

text \<open>The colours, as the 24-bit RGB values of the source's hexadecimal literals.\<close>

definition red :: nat where "red = 16711680"
definition green :: nat where "green = 65280"
definition yellow :: nat where "yellow = 16776960"
definition cyan :: nat where "cyan = 65535"

text \<open>
  The inner loop of \<open>renderEvent\<close>, \<open>for (let j = 0; j <= numPoints; j++)\<close>, and the point
  its body pushes at index \<open>j\<close>.
\<close>

definition sample_point :: "jsnum \<Rightarrow> jsnum \<Rightarrow> jsnum \<Rightarrow> nat \<Rightarrow> vector3" where
  "sample_point pt phi pz_i j =
     (let t = js_div (Num (real j)) (Num (real numPoints));
          r = js_mul t (Math_min (js_div pt (Num 20)) maxR);
          x = js_mul r (Math_cos phi);
          y = js_mul r (Math_sin phi);
          z = js_div (js_mul t pz_i) (Num 10)
      in Vector3 x z y)"

function points_loop :: "jsnum \<Rightarrow> jsnum \<Rightarrow> jsnum \<Rightarrow> nat \<Rightarrow> vector3 list \<Rightarrow> vector3 list" where
  "points_loop pt phi pz_i j points =
     (if j \<le> numPoints then
        points_loop pt phi pz_i (j + 1) (points @ [sample_point pt phi pz_i j])
      else points)"
  by pat_completeness auto
termination
  by (relation "measure (\<lambda>(pt, phi, pz_i, j, points). numPoints + 1 - j)") auto

definition species_color :: "jsnum \<Rightarrow> nat" where
  "species_color pdgId =
     (if pdgId = Num 11 then red
      else if pdgId = Num 13 then green
      else if pdgId = Num 22 then yellow
      else cyan)"

text \<open>
  The body of the outer loop of \<open>renderEvent\<close> for particle \<open>i\<close>: the values of its
  variables \<open>color\<close>, \<open>track\<close> and \<open>marker\<close>, then the two additions to the scene and to
  \<open>particleMeshes\<close>.
\<close>

definition particle_color :: "particles \<Rightarrow> nat \<Rightarrow> nat" where
  "particle_color ps i =
     (let pdgId = Math_abs (arr_get (map real_of_int (pdg_id ps)) i)
      in species_color pdgId)"

definition particle_track :: "particles \<Rightarrow> nat \<Rightarrow> scene_object" where
  "particle_track ps i =
     (let px_i = arr_get (px ps) i;
          py_i = arr_get (py ps) i;
          pz_i = arr_get (pz ps) i;
          pt = Math_sqrt (js_add (js_mul px_i px_i) (js_mul py_i py_i));
          p = Math_sqrt (js_add (js_add (js_mul px_i px_i) (js_mul py_i py_i)) (js_mul pz_i pz_i));
          phi = Math_atan2 py_i px_i;
          points = points_loop pt phi pz_i 0 []
      in TrackLine points (particle_color ps i))"

definition particle_marker :: "particles \<Rightarrow> nat \<Rightarrow> scene_object" where
  "particle_marker ps i = SphereMesh 0.05 (particle_color ps i) (Vector3 (Num 0) (Num 0) (Num 0))"

definition render_particle :: "particles \<Rightarrow> nat \<Rightarrow> component \<Rightarrow> js_error + component" where
  "render_particle ps i c =
     (let track = particle_track ps i
      in case scene_add track c of
           Inl e \<Rightarrow> Inl e
         | Inr c \<Rightarrow>
             (let c = c\<lparr>particleMeshes := particleMeshes c @ [track]\<rparr>;
                  marker = particle_marker ps i
              in case scene_add marker c of
                   Inl e \<Rightarrow> Inl e
                 | Inr c \<Rightarrow> Inr (c\<lparr>particleMeshes := particleMeshes c @ [marker]\<rparr>)))"

text \<open>The outer loop: \<open>for (let i = 0; i < particles.px.length; i++)\<close>.\<close>

function particle_loop :: "particles \<Rightarrow> nat \<Rightarrow> component \<Rightarrow> js_error + component" where
  "particle_loop ps i c =
     (if i < length (px ps) then
        (case render_particle ps i c of
           Inl e \<Rightarrow> Inl e
         | Inr c' \<Rightarrow> particle_loop ps (i + 1) c')
      else Inr c)"
  by pat_completeness auto
termination
  by (relation "measure (\<lambda>(ps, i, c). length (px ps) - i)") auto

text \<open>The objects the outer loop of \<open>renderEvent\<close> adds from particle \<open>i\<close> on.\<close>

abbreviation (input) particle_objects :: "particles \<Rightarrow> nat \<Rightarrow> scene_object list" where
  "particle_objects ps i \<equiv>
     concat (map (\<lambda>k. [particle_track ps k, particle_marker ps k]) [i..<length (px ps)])"

definition renderEvent :: "event option \<Rightarrow> component \<Rightarrow> js_error + component" where
  "renderEvent ev c =
     (case forEach (particleMeshes c) scene_remove c of
        Inl e \<Rightarrow> Inl e
      | Inr c \<Rightarrow>
          (let c = c\<lparr>particleMeshes := []\<rparr>
           in case ev of
                None \<Rightarrow> Inr c
              | Some e \<Rightarrow>
                  (case particles e of
                     None \<Rightarrow> Inr c
                   | Some ps \<Rightarrow> particle_loop ps 0 c)))"

text \<open>
  \<open>initThreeJS\<close>: a new scene with two lights, the grid and the axes; camera, renderer and
  controls; and the \<open>resize\<close> listener on \<open>window\<close> (the DOM keeps one registration of the
  same listener). The camera's aspect ratio is not modelled.
\<close>

definition addEventListener :: "handler \<Rightarrow> window \<Rightarrow> window" where
  "addEventListener h w =
     (if h \<in> set (resizeListeners w) then w
      else w\<lparr>resizeListeners := resizeListeners w @ [h]\<rparr>)"

definition requestAnimationFrame :: "handler \<Rightarrow> window \<Rightarrow> window" where
  "requestAnimationFrame h w = w\<lparr>animationFrames := animationFrames w @ [h]\<rparr>"

definition initThreeJS :: "container \<Rightarrow> component \<times> window \<Rightarrow> component \<times> window" where
  "initThreeJS canvasContainer cw =
     (case cw of (c, w) \<Rightarrow>
        (c\<lparr>scene := Some [AmbientLight 16777215 0.5, DirectionalLight 16777215 0.8,
                          GridHelper 10 20, AxesHelper 5],
           camera := Some \<lparr>camera_position = (5, 5, 5)\<rparr>,
           renderer := Some \<lparr>renderer_size = (clientWidth canvasContainer, clientHeight canvasContainer),
                              renderer_disposed = False, frames_rendered = 0\<rparr>,
           controls := Some \<lparr>enableDamping = True, dampingFactor = 0.05, controls_updates = 0,
                              controls_disposed = False\<rparr>\<rparr>,
         addEventListener OnWindowResize w))"

definition default_geometry :: geometry where
  "default_geometry =
     \<lparr>tracker = \<lparr>inner_radius = 0.04, outer_radius = 1.2, shell_length = 5.0\<rparr>,
      ecal = \<lparr>inner_radius = 1.3, outer_radius = 1.8, shell_length = 6.0\<rparr>,
      hcal = \<lparr>inner_radius = 1.9, outer_radius = 3.0, shell_length = 7.0\<rparr>\<rparr>"

definition add_detector_mesh :: "scene_object \<Rightarrow> component \<Rightarrow> js_error + component" where
  "add_detector_mesh mesh c =
     (case scene_add mesh c of
        Inl e \<Rightarrow> Inl e
      | Inr c \<Rightarrow> Inr (c\<lparr>detectorMeshes := detectorMeshes c @ [mesh]\<rparr>))"

definition createDetectorGeometry :: "detector_config option \<Rightarrow> component \<Rightarrow> js_error + component" where
  "createDetectorGeometry detectorConfig_prop c =
     (case forEach (detectorMeshes c) scene_remove c of
        Inl e \<Rightarrow> Inl e
      | Inr c \<Rightarrow>
          (let c = c\<lparr>detectorMeshes := []\<rparr>;
               g = (case detectorConfig_prop of None \<Rightarrow> default_geometry | Some d \<Rightarrow> geometry d);
               tracker_mesh = DetectorShell (outer_radius (tracker g)) (shell_length (tracker g)) 4491519 0.2;
               ecal_mesh = DetectorShell (outer_radius (ecal g)) (shell_length (ecal g)) 4521864 0.15;
               hcal_mesh = DetectorShell (outer_radius (hcal g)) (shell_length (hcal g)) 16746564 0.1
           in case add_detector_mesh tracker_mesh c of
                Inl e \<Rightarrow> Inl e
              | Inr c \<Rightarrow>
                  (case add_detector_mesh ecal_mesh c of
                     Inl e \<Rightarrow> Inl e
                   | Inr c \<Rightarrow> add_detector_mesh hcal_mesh c)))"

text \<open>
  \<open>animate\<close> first asks for the next frame, then updates the controls and renders.
  Where a method throws, the model gives the error only, not the state left behind.
\<close>

definition animate :: "component \<times> window \<Rightarrow> js_error + component \<times> window" where
  "animate cw =
     (case cw of (c, w) \<Rightarrow>
        (let w = requestAnimationFrame Animate w
         in case controls c of
              None \<Rightarrow> Inl TypeError
            | Some k \<Rightarrow>
                (let c = c\<lparr>controls := Some (k\<lparr>controls_updates := controls_updates k + 1\<rparr>)\<rparr>
                 in case renderer c of
                      None \<Rightarrow> Inl TypeError
                    | Some r \<Rightarrow>
                        Inr (c\<lparr>renderer := Some (r\<lparr>frames_rendered := frames_rendered r + 1\<rparr>)\<rparr>, w))))"

definition mounted :: "event option \<Rightarrow> detector_config option \<Rightarrow> container \<Rightarrow> component \<times> window
    \<Rightarrow> js_error + component \<times> window" where
  "mounted event_prop detectorConfig_prop canvasContainer cw =
     (case initThreeJS canvasContainer cw of (c, w) \<Rightarrow>
        (case createDetectorGeometry detectorConfig_prop c of
           Inl e \<Rightarrow> Inl e
         | Inr c \<Rightarrow>
             (case (if event_prop \<noteq> None then renderEvent event_prop c else Inr c) of
                Inl e \<Rightarrow> Inl e
              | Inr c \<Rightarrow> animate (c, w))))"

definition beforeUnmount :: "component \<times> window \<Rightarrow> component \<times> window" where
  "beforeUnmount cw =
     (case cw of (c, w) \<Rightarrow>
        (let c = (case renderer c of
                    None \<Rightarrow> c
                  | Some r \<Rightarrow> c\<lparr>renderer := Some (r\<lparr>renderer_disposed := True\<rparr>)\<rparr>);
             c = (case controls c of
                    None \<Rightarrow> c
                  | Some k \<Rightarrow> c\<lparr>controls := Some (k\<lparr>controls_disposed := True\<rparr>)\<rparr>)
         in (c, w)))"

text \<open>\<open>onWindowResize\<close>; \<open>$refs.canvasContainer\<close> is \<open>None\<close> once the element is gone.\<close>

definition onWindowResize :: "container option \<Rightarrow> component \<Rightarrow> js_error + component" where
  "onWindowResize canvasContainer c =
     (case canvasContainer of
        None \<Rightarrow> Inr c
      | Some el \<Rightarrow>
          (case camera c of
             None \<Rightarrow> Inl TypeError
           | Some cam \<Rightarrow>
               (case renderer c of
                  None \<Rightarrow> Inl TypeError
                | Some r \<Rightarrow>
                    Inr (c\<lparr>renderer := Some (r\<lparr>renderer_size := (clientWidth el, clientHeight el)\<rparr>)\<rparr>))))"

text \<open>
  What the browser does with the registrations: at a display frame it takes the waiting
  callbacks and calls each; at a resize of the window it calls each registered listener.
\<close>

fun call_handler :: "container option \<Rightarrow> handler \<Rightarrow> component \<times> window \<Rightarrow> js_error + component \<times> window" where
  "call_handler refs Animate cw = animate cw"
| "call_handler refs OnWindowResize (c, w) =
     (case onWindowResize refs c of Inl e \<Rightarrow> Inl e | Inr c' \<Rightarrow> Inr (c', w))"

fun call_handlers :: "container option \<Rightarrow> handler list \<Rightarrow> component \<times> window \<Rightarrow> js_error + component \<times> window" where
  "call_handlers refs [] cw = Inr cw"
| "call_handlers refs (h # hs) cw =
     (case call_handler refs h cw of Inl e \<Rightarrow> Inl e | Inr cw' \<Rightarrow> call_handlers refs hs cw')"

definition display_frame :: "container option \<Rightarrow> component \<times> window \<Rightarrow> js_error + component \<times> window" where
  "display_frame refs cw =
     (case cw of (c, w) \<Rightarrow> call_handlers refs (animationFrames w) (c, w\<lparr>animationFrames := []\<rparr>))"

definition window_resized :: "container option \<Rightarrow> component \<times> window \<Rightarrow> js_error + component \<times> window" where
  "window_resized refs cw =
     (case cw of (c, w) \<Rightarrow> call_handlers refs (resizeListeners w) (c, w))"

section \<open>Analytics renderer (views/AnalysisDashboard.vue)\<close>

text \<open>
  The number operations \<open>renderHistogram\<close> uses are those of the JavaScript engine: \<open>+\<close>,
  \<open>/\<close>, the number literal and \<open>toFixed\<close>. They are parameters of the model, over a type
  \<open>'n\<close> of numbers, so that nothing is assumed about rounding, overflow or the infinities:
  what is proved holds for every interpretation, binary64 arithmetic among them.
\<close>

record 'n number_ops =
  plus_op :: "'n \<Rightarrow> 'n \<Rightarrow> 'n"
  divide_op :: "'n \<Rightarrow> 'n \<Rightarrow> 'n"
  number_literal :: "nat \<Rightarrow> 'n"
  toFixed :: "'n \<Rightarrow> nat \<Rightarrow> string"




text \<open>
  \<open>for (let i = 0; i < bins.length - 1; i++)\<close>; the bound is an integer and can be -1.
  Under the loop condition both \<open>i\<close> and \<open>i + 1\<close> are indices of \<open>bins\<close>.
\<close>

function binCenters_loop :: "'n number_ops \<Rightarrow> 'n list \<Rightarrow> nat \<Rightarrow> 'n list \<Rightarrow> 'n list" where
  "binCenters_loop ops bs i binCenters =
     (if int i < int (length bs) - 1 then
        binCenters_loop ops bs (i + 1)
          (binCenters @ [divide_op ops (plus_op ops (bs ! i) (bs ! (i + 1))) (number_literal ops 2)])
      else binCenters)"
  by pat_completeness auto
termination
  by (relation "measure (\<lambda>(ops, bs, i, binCenters). length bs - i)") auto


section \<open>Example inputs\<close>

definition example_config :: "nat \<Rightarrow> bool \<Rightarrow> detector_config" where
  "example_config n a =
     \<lparr>config_id = n, name = ''CMS-like'', description = [], magnetic_field = 3.8,
      geometry = default_geometry, is_active = a, created_at = []\<rparr>"

definition example_statistics :: statistics where
  "example_statistics =
     \<lparr>total_events = 120, events_with_leptons = 30, events_with_jets = 80,
      average_invariant_mass = None\<rparr>"

definition example_particles :: particles where
  "example_particles =
     \<lparr>px = [3, 60], py = [4, 0], pz = [10, -5], energy = [15, 61], pdg_id = [11, -13]\<rparr>"

definition example_event :: event where
  "example_event =
     \<lparr>event_id = ''a1b2c3d4e5'', num_particles = 2, particles = Some example_particles\<rparr>"

definition example_container :: container where
  "example_container = \<lparr>clientWidth = 800, clientHeight = 600\<rparr>"

text \<open>The component once \<open>initThreeJS\<close> has run.\<close>

definition ready_component :: component where
  "ready_component = fst (initThreeJS example_container (initial_component, initial_window))"

text \<open>
  An interpretation of the number operations for the examples: exact arithmetic on the
  reals, and \<open>toFixed\<close> as the language defines it on the exact value, for magnitudes below
  \<open>10\<^sup>2\<^sup>1\<close>: the nearest multiple of \<open>10\<^sup>-\<^sup>f\<close>, the larger one on a tie, written with
  \<open>f\<close> decimals.
\<close>

definition decimal_digit :: "nat \<Rightarrow> char" where
  "decimal_digit n = ''0123456789'' ! (n mod 10)"

function decimal :: "nat \<Rightarrow> string" where
  "decimal n = (if n < 10 then [decimal_digit n] else decimal (n div 10) @ [decimal_digit n])"
  by pat_completeness auto
termination
  by (relation "measure (\<lambda>n. n)") auto





section \<open>Properties of the store\<close>

lemmas store_defs = fetchEvent_def fetchEvents_def fetchStatistics_def fetchDetectorConfigs_def
  try_catch_def try_catch_finally_def commit_def Let_def

lemma find_first_active:
  "\<forall>x\<in>set pre. \<not> P x \<Longrightarrow> P c \<Longrightarrow> List.find P (pre @ c # post) = Some c"
  by (induction pre) auto

lemma find_none_active: "\<forall>x\<in>set xs. \<not> P x \<Longrightarrow> List.find P xs = None"
  by (induction xs) auto

text \<open>
  C1, as the code has it. \<open>fetchEvent\<close> and \<open>fetchEvents\<close> commit, in this order,
  \<open>SET_LOADING true\<close>, \<open>SET_ERROR null\<close>, then the result of the call or the message of
  its error, then \<open>SET_LOADING false\<close>, and leave \<open>loading\<close> false, whatever the call
  returned. \<open>fetchStatistics\<close> and \<open>fetchDetectorConfigs\<close> commit the result or the error
  message only: they commit no \<open>SET_LOADING\<close> and leave \<open>loading\<close> as they found it.
\<close>

theorem store_actions_loading_sequence:
  "committed (snd (fetchEvent r1 st)) =
     committed st @ [SET_LOADING True, SET_ERROR None,
       (case r1 of Inl e \<Rightarrow> SET_ERROR (Some (message e)) | Inr ev \<Rightarrow> SET_CURRENT_EVENT (Some ev)),
       SET_LOADING False]
   \<and> loading (state (snd (fetchEvent r1 st))) = False
   \<and> committed (snd (fetchEvents r2 st)) =
     committed st @ [SET_LOADING True, SET_ERROR None,
       (case r2 of Inl e \<Rightarrow> SET_ERROR (Some (message e)) | Inr resp \<Rightarrow> SET_EVENTS (events_of resp)),
       SET_LOADING False]
   \<and> loading (state (snd (fetchEvents r2 st))) = False
   \<and> committed (snd (fetchStatistics r3 st)) =
     committed st @
       [case r3 of Inl e \<Rightarrow> SET_ERROR (Some (message e)) | Inr stats \<Rightarrow> SET_STATISTICS (Some stats)]
   \<and> loading (state (snd (fetchStatistics r3 st))) = loading (state st)
   \<and> SET_LOADING b \<notin> set (drop (length (committed st)) (committed (snd (fetchDetectorConfigs r4 st))))
   \<and> SET_ERROR None \<notin> set (drop (length (committed st)) (committed (snd (fetchDetectorConfigs r4 st))))
   \<and> loading (state (snd (fetchDetectorConfigs r4 st))) = loading (state st)"
  by (auto simp: store_defs split: sum.splits option.splits)

text \<open>
  The sequence fails for \<open>fetchStatistics\<close>: started while \<open>loading\<close> is true (an event
  fetch is in flight) it ends with \<open>loading\<close> still true, and from the initial store its
  only commit is the statistics.
\<close>

theorem fetchStatistics_loading_counterexample:
  "loading (state (snd (fetchStatistics (Inr example_statistics)
        (commit initial_store (SET_LOADING True))))) = True
   \<and> committed (snd (fetchStatistics (Inr example_statistics) initial_store)) =
      [SET_STATISTICS (Some example_statistics)]"
  by (simp add: store_defs initial_store_def initial_state_def)

text \<open>
  C3. When the backend returns a list of configs, \<open>fetchDetectorConfigs\<close> commits nothing
  for the empty list (the store is unchanged, so \<open>detectorConfig\<close> stays as it was);
  otherwise it commits exactly one \<open>SET_DETECTOR_CONFIG\<close>: with the first config whose
  \<open>is_active\<close> is true if there is one, with the first config of the list if none is active.
\<close>

theorem fetchDetectorConfigs_selection:
  "(configs = [] \<longrightarrow> fetchDetectorConfigs (Inr (Some configs)) st = (Inr (), st))
   \<and> (\<forall>pre c post. configs = pre @ c # post \<and> is_active c \<and> (\<forall>x\<in>set pre. \<not> is_active x)
        \<longrightarrow> fetchDetectorConfigs (Inr (Some configs)) st =
              (Inr (), \<lparr>state = (state st)\<lparr>detectorConfig := Some c\<rparr>,
                        committed = committed st @ [SET_DETECTOR_CONFIG (Some c)]\<rparr>))
   \<and> (configs \<noteq> [] \<and> (\<forall>x\<in>set configs. \<not> is_active x)
        \<longrightarrow> fetchDetectorConfigs (Inr (Some configs)) st =
              (Inr (), \<lparr>state = (state st)\<lparr>detectorConfig := Some (hd configs)\<rparr>,
                        committed = committed st @ [SET_DETECTOR_CONFIG (Some (hd configs))]\<rparr>))"
proof (intro conjI allI impI)
  assume "configs = []"
  then show "fetchDetectorConfigs (Inr (Some configs)) st = (Inr (), st)"
    by (simp add: store_defs)
next
  fix pre c post
  assume h: "configs = pre @ c # post \<and> is_active c \<and> (\<forall>x\<in>set pre. \<not> is_active x)"
  then have "List.find is_active configs = Some c"
    by (simp add: find_first_active)
  with h show "fetchDetectorConfigs (Inr (Some configs)) st =
      (Inr (), \<lparr>state = (state st)\<lparr>detectorConfig := Some c\<rparr>,
                committed = committed st @ [SET_DETECTOR_CONFIG (Some c)]\<rparr>)"
    by (simp add: store_defs)
next
  assume h: "configs \<noteq> [] \<and> (\<forall>x\<in>set configs. \<not> is_active x)"
  then have "List.find is_active configs = None"
    by (simp add: find_none_active)
  with h show "fetchDetectorConfigs (Inr (Some configs)) st =
      (Inr (), \<lparr>state = (state st)\<lparr>detectorConfig := Some (hd configs)\<rparr>,
                committed = committed st @ [SET_DETECTOR_CONFIG (Some (hd configs))]\<rparr>)"
    by (simp add: store_defs hd_conv_nth)
qed

text \<open>
  The three cases at concrete lists: the empty list; an inactive config followed by two
  active ones; two inactive configs.
\<close>

theorem fetchDetectorConfigs_selection_witness:
  "fetchDetectorConfigs (Inr (Some [])) initial_store = (Inr (), initial_store)
   \<and> detectorConfig (state (snd (fetchDetectorConfigs
        (Inr (Some [example_config 1 False, example_config 2 True, example_config 3 True]))
        initial_store))) = Some (example_config 2 True)
   \<and> detectorConfig (state (snd (fetchDetectorConfigs
        (Inr (Some [example_config 1 False, example_config 2 False]))
        initial_store))) = Some (example_config 1 False)"
  using fetchDetectorConfigs_selection [of "[]" initial_store]
    fetchDetectorConfigs_selection
      [of "[example_config 1 False, example_config 2 True, example_config 3 True]" initial_store,
       THEN conjunct2, THEN conjunct1, rule_format,
       of "[example_config 1 False]" "example_config 2 True" "[example_config 3 True]"]
    fetchDetectorConfigs_selection
      [of "[example_config 1 False, example_config 2 False]" initial_store]
  by (simp add: example_config_def)

text \<open>
  C7, as the code has it. Whatever the Data Client call returns, no action throws. When the
  call fails with error \<open>e\<close>, the action stores \<open>e.message\<close> in \<open>error\<close> and commits no
  result: \<open>fetchStatistics\<close> and \<open>fetchDetectorConfigs\<close> commit nothing after it, while
  \<open>fetchEvent\<close> and \<open>fetchEvents\<close> then commit \<open>SET_LOADING false\<close> from their
  \<open>finally\<close> block. The data fields of the state are unchanged.
\<close>

theorem store_actions_catch_errors:
  "fst (fetchEvent r1 st) = Inr () \<and> fst (fetchEvents r2 st) = Inr ()
   \<and> fst (fetchStatistics r3 st) = Inr () \<and> fst (fetchDetectorConfigs r4 st) = Inr ()
   \<and> snd (fetchEvent (Inl e) st) =
       \<lparr>state = (state st)\<lparr>loading := False, error := Some (message e)\<rparr>,
        committed = committed st @
          [SET_LOADING True, SET_ERROR None, SET_ERROR (Some (message e)), SET_LOADING False]\<rparr>
   \<and> snd (fetchEvents (Inl e) st) =
       \<lparr>state = (state st)\<lparr>loading := False, error := Some (message e)\<rparr>,
        committed = committed st @
          [SET_LOADING True, SET_ERROR None, SET_ERROR (Some (message e)), SET_LOADING False]\<rparr>
   \<and> snd (fetchStatistics (Inl e) st) =
       \<lparr>state = (state st)\<lparr>error := Some (message e)\<rparr>,
        committed = committed st @ [SET_ERROR (Some (message e))]\<rparr>
   \<and> snd (fetchDetectorConfigs (Inl e) st) =
       \<lparr>state = (state st)\<lparr>error := Some (message e)\<rparr>,
        committed = committed st @ [SET_ERROR (Some (message e))]\<rparr>"
  by (auto simp: store_defs split: sum.splits option.splits)

text \<open>
  After a failed \<open>getEvent\<close>, the commit of the error message is not the last commit of
  \<open>fetchEvent\<close>: \<open>SET_LOADING false\<close> follows it.
\<close>

theorem fetchEvent_commits_after_error_counterexample:
  "committed (snd (fetchEvent (Inl \<lparr>message = ''Network Error''\<rparr>) initial_store)) =
     [SET_LOADING True, SET_ERROR None, SET_ERROR (Some ''Network Error''), SET_LOADING False]
   \<and> last (committed (snd (fetchEvent (Inl \<lparr>message = ''Network Error''\<rparr>) initial_store)))
       \<noteq> SET_ERROR (Some ''Network Error'')"
  by (simp add: store_defs initial_store_def)

section \<open>Properties of the scene renderer and of the analytics renderer\<close>

declare points_loop.simps [simp del] particle_loop.simps [simp del] binCenters_loop.simps [simp del]
  decimal.simps [simp del]

lemma points_loop_eq:
  "points_loop pt phi pz_i j acc = acc @ map (sample_point pt phi pz_i) [j..<numPoints + 1]"
proof (induction pt phi pz_i j acc rule: points_loop.induct)
  case (1 pt phi pz_i j points)
  show ?case
  proof (cases "j \<le> numPoints")
    case True
    then have "[j..<numPoints + 1] = j # [j + 1..<numPoints + 1]"
      by (simp add: upt_conv_Cons)
    with True "1" show ?thesis
      by (subst points_loop.simps) simp
  next
    case False
    then show ?thesis
      by (subst points_loop.simps) simp
  qed
qed

lemma render_particle_ok:
  "scene c = Some sc \<Longrightarrow>
   render_particle ps i c =
     Inr (c\<lparr>scene := Some (sc @ [particle_track ps i, particle_marker ps i]),
           particleMeshes := particleMeshes c @ [particle_track ps i, particle_marker ps i]\<rparr>)"
  by (simp add: render_particle_def scene_add_def Let_def)

lemma particle_loop_ok:
  "scene c = Some sc \<Longrightarrow>
   particle_loop ps i c =
     Inr (c\<lparr>scene := Some (sc @ particle_objects ps i),
           particleMeshes := particleMeshes c @ particle_objects ps i\<rparr>)"
proof (induction ps i c arbitrary: sc rule: particle_loop.induct)
  case (1 ps i c)
  show ?case
  proof (cases "i < length (px ps)")
    case True
    then have u: "[i..<length (px ps)] = i # [i + 1..<length (px ps)]"
      by (simp add: upt_conv_Cons)
    let ?c' = "c\<lparr>scene := Some (sc @ [particle_track ps i, particle_marker ps i]),
           particleMeshes := particleMeshes c @ [particle_track ps i, particle_marker ps i]\<rparr>"
    have r: "render_particle ps i c = Inr ?c'"
      using "1.prems" by (rule render_particle_ok)
    have "particle_loop ps (i + 1) ?c' =
        Inr (?c'\<lparr>scene := Some ((sc @ [particle_track ps i, particle_marker ps i]) @ particle_objects ps (i + 1)),
           particleMeshes := particleMeshes ?c' @ particle_objects ps (i + 1)\<rparr>)"
      using True r by (intro "1.IH") simp_all
    then show ?thesis
      using True r u by (subst particle_loop.simps) simp
  next
    case False
    then show ?thesis
      using "1.prems" by (subst particle_loop.simps) simp
  qed
qed

lemma forEach_remove_ok:
  "scene c = Some sc \<Longrightarrow>
   forEach ms scene_remove c = Inr (c\<lparr>scene := Some (fold remove1 ms sc)\<rparr>)"
proof (induction ms arbitrary: c sc)
  case Nil
  then show ?case by simp
next
  case (Cons m ms)
  have "forEach ms scene_remove (c\<lparr>scene := Some (remove1 m sc)\<rparr>) =
        Inr (c\<lparr>scene := Some (remove1 m sc)\<rparr>\<lparr>scene := Some (fold remove1 ms (remove1 m sc))\<rparr>)"
    by (rule Cons.IH) simp
  moreover have "scene_remove m c = Inr (c\<lparr>scene := Some (remove1 m sc)\<rparr>)"
    using Cons.prems by (simp add: scene_remove_def)
  ultimately show ?case by simp
qed

lemma remove1_first:
  "filter P xs = m # ms \<Longrightarrow>
   filter P (remove1 m xs) = ms \<and> filter (\<lambda>x. \<not> P x) (remove1 m xs) = filter (\<lambda>x. \<not> P x) xs"
proof (induction xs)
  case Nil
  then show ?case by simp
next
  case (Cons x xs)
  have "m \<in> set (filter P (x # xs))"
    unfolding Cons.prems by simp
  then have "P m"
    unfolding set_filter by simp
  with Cons show ?case
    by (cases "P x") auto
qed

lemma fold_remove1_filter:
  "filter P xs = ms \<Longrightarrow> fold remove1 ms xs = filter (\<lambda>x. \<not> P x) xs"
proof (induction ms arbitrary: xs)
  case Nil
  then have "\<forall>x\<in>set xs. \<not> P x"
    by (simp add: filter_empty_conv)
  then show ?case by simp
next
  case (Cons m ms)
  from remove1_first [OF Cons.prems]
  have a: "filter P (remove1 m xs) = ms"
    and b: "filter (\<lambda>x. \<not> P x) (remove1 m xs) = filter (\<lambda>x. \<not> P x) xs"
    by simp_all
  from Cons.IH [OF a] b show ?case by simp
qed


lemma pairs_length: "length (concat (map (\<lambda>k. [f k, g k]) [0..<n])) = 2 * n"
  by (induction n) simp_all

lemma pairs_nth:
  "i < n \<Longrightarrow> concat (map (\<lambda>k. [f k, g k]) [0..<n]) ! (2 * i) = f i
     \<and> concat (map (\<lambda>k. [f k, g k]) [0..<n]) ! (2 * i + 1) = g i"
proof (induction n)
  case 0
  then show ?case by simp
next
  case (Suc n)
  show ?case
  proof (cases "i < n")
    case True
    with Suc.IH show ?thesis
      by (simp add: nth_append pairs_length)
  next
    case False
    with Suc.prems have "i = n" by simp
    then show ?thesis
      by (simp add: nth_append pairs_length)
  qed
qed

lemma renderEvent_particles:
  "scene c = Some sc \<Longrightarrow> particles e = Some ps \<Longrightarrow>
   renderEvent (Some e) c =
     Inr (c\<lparr>scene := Some (fold remove1 (particleMeshes c) sc @ particle_objects ps 0),
           particleMeshes := particle_objects ps 0\<rparr>)"
  by (simp add: renderEvent_def forEach_remove_ok particle_loop_ok)

lemma renderEvent_nothing:
  assumes "scene c \<noteq> None \<or> particleMeshes c = []"
    and "ev = None \<or> (\<exists>e. ev = Some e \<and> particles e = None)"
  shows "renderEvent ev c =
     Inr (c\<lparr>scene := map_option (fold remove1 (particleMeshes c)) (scene c), particleMeshes := []\<rparr>)"
proof (cases "scene c")
  case None
  with assms(1) have "particleMeshes c = []" by simp
  with None assms(2) show ?thesis
    by (auto simp: renderEvent_def)
next
  case (Some sc)
  with assms(2) show ?thesis
    by (auto simp: renderEvent_def forEach_remove_ok)
qed

lemma points_loop_length: "length (points_loop pt phi pz_i 0 []) = 51"
  by (simp add: points_loop_eq numPoints_def)

lemma points_loop_nth:
  "j \<le> 50 \<Longrightarrow> points_loop pt phi pz_i 0 [] ! j = sample_point pt phi pz_i j"
  by (simp add: points_loop_eq numPoints_def del: upt_Suc)

lemma sample_point_Num:
  "sample_point (Num pt) (Num phi) (Num pz_i) j =
     Vector3 (Num (real j / 50 * min (pt / 20) 3 * cos phi))
             (Num (real j / 50 * pz_i / 10))
             (Num (real j / 50 * min (pt / 20) 3 * sin phi))"
  by (simp add: sample_point_def numPoints_def maxR_def Let_def)

lemma particle_track_in_range:
  assumes "i < length (px ps)" and "length (py ps) = length (px ps)"
    and "length (pz ps) = length (px ps)"
  shows "particle_track ps i =
     TrackLine (points_loop (Num (sqrt (px ps ! i * px ps ! i + py ps ! i * py ps ! i)))
                  (Num (atan2 (py ps ! i) (px ps ! i))) (Num (pz ps ! i)) 0 [])
       (particle_color ps i)"
proof -
  have "\<not> px ps ! i * px ps ! i + py ps ! i * py ps ! i < 0"
    by (simp add: not_less)
  with assms show ?thesis
    by (simp add: particle_track_def arr_get_def Let_def)
qed

lemma particle_color_in_range:
  assumes "i < length (pdg_id ps)"
  shows "particle_color ps i =
     (if \<bar>pdg_id ps ! i\<bar> = 11 then red
      else if \<bar>pdg_id ps ! i\<bar> = 13 then green
      else if \<bar>pdg_id ps ! i\<bar> = 22 then yellow
      else cyan)"
proof -
  obtain k where k: "k = \<bar>pdg_id ps ! i\<bar>"
    by simp
  have "\<bar>real_of_int (pdg_id ps ! i)\<bar> = real_of_int k"
    unfolding k by simp
  then have "Math_abs (arr_get (map real_of_int (pdg_id ps)) i) = Num (real_of_int k)"
    using assms by (simp add: arr_get_def)
  then have "particle_color ps i =
     (if k = 11 then red else if k = 13 then green else if k = 22 then yellow else cyan)"
    by (simp add: particle_color_def species_color_def Let_def)
  then show ?thesis
    unfolding k .
qed

lemma particle_objects_per_event:
  "filter is_per_event (particle_objects ps i) = particle_objects ps i"
  by (simp add: filter_concat particle_track_def particle_marker_def Let_def o_def)

lemma ready_scene:
  "scene ready_component =
     Some [AmbientLight 16777215 0.5, DirectionalLight 16777215 0.8, GridHelper 10 20, AxesHelper 5]"
  by (simp add: ready_component_def initThreeJS_def initial_component_def)

lemma ready_particleMeshes: "particleMeshes ready_component = []"
  by (simp add: ready_component_def initThreeJS_def initial_component_def)

text \<open>
  C5. On an initialised component (the scene exists) and for an event whose \<open>px\<close> array
  has length \<open>M\<close>, \<open>renderEvent\<close> returns normally and leaves \<open>particleMeshes\<close> with exactly
  \<open>2 * M\<close> objects, whatever it held before: for each \<open>i < M\<close> the polyline of particle
  \<open>i\<close>, of 51 points, directly followed by its sphere marker. The prior per-event objects
  are removed from the scene before the new ones are added: when the per-event objects of
  the scene were those recorded in \<open>particleMeshes\<close>, which every call re-establishes,
  the per-event objects of the scene afterwards are exactly the \<open>2 * M\<close> new ones.
\<close>

theorem renderEvent_emits_two_per_particle:
  assumes "scene c = Some sc" and "particles e = Some ps" and "length (px ps) = M"
  shows "\<exists>c' sc'. renderEvent (Some e) c = Inr c' \<and> scene c' = Some sc'
     \<and> length (particleMeshes c') = 2 * M
     \<and> (\<forall>i<M. \<exists>pts. particleMeshes c' ! (2 * i) = TrackLine pts (particle_color ps i)
            \<and> length pts = 51
            \<and> particleMeshes c' ! (2 * i + 1) =
                SphereMesh 0.05 (particle_color ps i) (Vector3 (Num 0) (Num 0) (Num 0)))
     \<and> sc' = fold remove1 (particleMeshes c) sc @ particleMeshes c'
     \<and> (filter is_per_event sc = particleMeshes c \<longrightarrow>
          filter is_per_event sc' = particleMeshes c' \<and> length (filter is_per_event sc') = 2 * M)"
proof -
  let ?objs = "particle_objects ps 0"
  let ?c' = "c\<lparr>scene := Some (fold remove1 (particleMeshes c) sc @ ?objs), particleMeshes := ?objs\<rparr>"
  have r: "renderEvent (Some e) c = Inr ?c'"
    using assms(1,2) by (rule renderEvent_particles)
  have len: "length ?objs = 2 * M"
    using assms(3) by (simp add: pairs_length)
  have nth: "\<exists>pts. ?objs ! (2 * i) = TrackLine pts (particle_color ps i) \<and> length pts = 51
            \<and> ?objs ! (2 * i + 1) = SphereMesh 0.05 (particle_color ps i) (Vector3 (Num 0) (Num 0) (Num 0))"
    if "i < M" for i
  proof -
    from that assms(3) have "i < length (px ps)" by simp
    from pairs_nth [OF this, of "particle_track ps" "particle_marker ps"]
    show ?thesis
      by (simp add: particle_track_def particle_marker_def Let_def points_loop_length)
  qed
  have inv: "filter is_per_event (fold remove1 (particleMeshes c) sc @ ?objs) = ?objs"
    if "filter is_per_event sc = particleMeshes c"
  proof -
    from fold_remove1_filter [OF that]
    have "fold remove1 (particleMeshes c) sc = filter (\<lambda>x. \<not> is_per_event x) sc" .
    then show ?thesis
      using particle_objects_per_event [of ps 0] by simp
  qed
  show ?thesis
  proof (intro exI conjI)
    show "renderEvent (Some e) c = Inr ?c'" by (rule r)
    show "scene ?c' = Some (fold remove1 (particleMeshes c) sc @ ?objs)" by simp
    show "length (particleMeshes ?c') = 2 * M" using len by simp
    show "\<forall>i<M. \<exists>pts. particleMeshes ?c' ! (2 * i) = TrackLine pts (particle_color ps i)
            \<and> length pts = 51
            \<and> particleMeshes ?c' ! (2 * i + 1) =
                SphereMesh 0.05 (particle_color ps i) (Vector3 (Num 0) (Num 0) (Num 0))"
      using nth by simp
    show "fold remove1 (particleMeshes c) sc @ ?objs =
          fold remove1 (particleMeshes c) sc @ particleMeshes ?c'" by simp
    show "filter is_per_event sc = particleMeshes c \<longrightarrow>
          filter is_per_event (fold remove1 (particleMeshes c) sc @ ?objs) = particleMeshes ?c'
          \<and> length (filter is_per_event (fold remove1 (particleMeshes c) sc @ ?objs)) = 2 * M"
      using inv len by simp
  qed
qed

theorem renderEvent_emits_two_per_particle_witness:
  "scene ready_component \<noteq> None \<and> particles example_event = Some example_particles
   \<and> length (px example_particles) = 2
   \<and> filter is_per_event (the (scene ready_component)) = particleMeshes ready_component
   \<and> (\<exists>c' sc'. renderEvent (Some example_event) ready_component = Inr c' \<and> scene c' = Some sc'
        \<and> length (particleMeshes c') = 4 \<and> length (filter is_per_event sc') = 4)"
proof -
  have p: "particles example_event = Some example_particles"
    by (simp add: example_event_def)
  have l: "length (px example_particles) = 2"
    by (simp add: example_particles_def)
  have f: "filter is_per_event (the (scene ready_component)) = particleMeshes ready_component"
    by (simp add: ready_scene ready_particleMeshes)
  from renderEvent_emits_two_per_particle [OF ready_scene p l]
  obtain c' sc' where "renderEvent (Some example_event) ready_component = Inr c'"
    and "scene c' = Some sc'" and "length (particleMeshes c') = 2 * 2"
    and "filter is_per_event (the (scene ready_component)) = particleMeshes ready_component \<longrightarrow>
          filter is_per_event sc' = particleMeshes c' \<and> length (filter is_per_event sc') = 2 * 2"
    unfolding ready_scene option.sel by blast
  with f have "\<exists>c' sc'. renderEvent (Some example_event) ready_component = Inr c' \<and> scene c' = Some sc'
        \<and> length (particleMeshes c') = 4 \<and> length (filter is_per_event sc') = 4"
    by simp
  with p l f show ?thesis
    by (simp add: ready_scene)
qed

lemma beforeUnmount_scene:
  "scene (fst (beforeUnmount (c, w))) = scene c
   \<and> particleMeshes (fst (beforeUnmount (c, w))) = particleMeshes c"
  by (simp add: beforeUnmount_def Let_def split: option.splits)

text \<open>
  C8. When the event is \<open>null\<close> or has no \<open>particles\<close>, \<open>renderEvent\<close> returns without
  throwing, after removing the prior per-event objects from the scene, and draws nothing:
  \<open>particleMeshes\<close> is empty and nothing is added to the scene. This holds on every
  component whose scene exists, and before \<open>initThreeJS\<close> while \<open>particleMeshes\<close> is
  empty; it holds the same on the component after \<open>beforeUnmount\<close>, which leaves the scene
  in place.
\<close>

theorem renderEvent_without_particles:
  assumes "scene c \<noteq> None \<or> particleMeshes c = []"
    and "ev = None \<or> (\<exists>e. ev = Some e \<and> particles e = None)"
  shows "\<exists>c'. renderEvent ev c = Inr c' \<and> particleMeshes c' = []
     \<and> scene c' = map_option (fold remove1 (particleMeshes c)) (scene c)
     \<and> (\<forall>sc. scene c = Some sc \<and> filter is_per_event sc = particleMeshes c \<longrightarrow>
          scene c' = Some (filter (\<lambda>x. \<not> is_per_event x) sc))
     \<and> (\<exists>c''. renderEvent ev (fst (beforeUnmount (c, w))) = Inr c'' \<and> particleMeshes c'' = []
          \<and> scene c'' = scene c')"
proof -
  let ?c' = "c\<lparr>scene := map_option (fold remove1 (particleMeshes c)) (scene c), particleMeshes := []\<rparr>"
  let ?u = "fst (beforeUnmount (c, w))"
  let ?c'' = "?u\<lparr>scene := map_option (fold remove1 (particleMeshes ?u)) (scene ?u), particleMeshes := []\<rparr>"
  have r: "renderEvent ev c = Inr ?c'"
    using assms by (rule renderEvent_nothing)
  have "scene ?u \<noteq> None \<or> particleMeshes ?u = []"
    using assms(1) by (simp add: beforeUnmount_scene)
  then have r': "renderEvent ev ?u = Inr ?c''"
    using assms(2) by (rule renderEvent_nothing)
  show ?thesis
  proof (intro exI conjI)
    show "renderEvent ev c = Inr ?c'" by (rule r)
    show "particleMeshes ?c' = []" by simp
    show "scene ?c' = map_option (fold remove1 (particleMeshes c)) (scene c)" by simp
    show "\<forall>sc. scene c = Some sc \<and> filter is_per_event sc = particleMeshes c \<longrightarrow>
          scene ?c' = Some (filter (\<lambda>x. \<not> is_per_event x) sc)"
      by (auto simp: fold_remove1_filter)
    show "renderEvent ev ?u = Inr ?c''" by (rule r')
    show "particleMeshes ?c'' = []" by simp
    show "scene ?c'' = scene ?c'" by (simp add: beforeUnmount_scene)
  qed
qed

text \<open>
  C4. For every particle \<open>i\<close> of an event with parallel arrays, the polyline that
  \<open>renderEvent\<close> builds has 51 points, and its point \<open>j\<close> (\<open>j = 0..50\<close>) is, with
  \<open>t = j/50\<close>, \<open>pt = sqrt(px\<^sub>i\<^sup>2 + py\<^sub>i\<^sup>2)\<close>, \<open>phi = atan2(py\<^sub>i, px\<^sub>i)\<close> and
  \<open>r = t * min(pt/20, 3.0)\<close>, the point \<open>(r cos phi, t pz\<^sub>i / 10, r sin phi)\<close>: the planar
  \<open>y\<close> is the third display coordinate and the longitudinal \<open>z\<close> the second.
\<close>

theorem track_sample_points:
  assumes "scene c = Some sc" and "particles e = Some ps" and "i < length (px ps)"
    and "length (py ps) = length (px ps)" and "length (pz ps) = length (px ps)" and "j \<le> 50"
  shows "\<exists>c' pts col. renderEvent (Some e) c = Inr c'
     \<and> particleMeshes c' ! (2 * i) = TrackLine pts col \<and> length pts = 51
     \<and> pts ! j =
        (let t = real j / 50;
             pt = sqrt (px ps ! i * px ps ! i + py ps ! i * py ps ! i);
             phi = atan2 (py ps ! i) (px ps ! i);
             r = t * min (pt / 20) 3.0;
             x = r * cos phi;
             y = r * sin phi;
             z = t * (pz ps ! i) / 10
         in Vector3 (Num x) (Num z) (Num y))"
proof -
  let ?objs = "particle_objects ps 0"
  let ?c' = "c\<lparr>scene := Some (fold remove1 (particleMeshes c) sc @ ?objs), particleMeshes := ?objs\<rparr>"
  let ?pts = "points_loop (Num (sqrt (px ps ! i * px ps ! i + py ps ! i * py ps ! i)))
                  (Num (atan2 (py ps ! i) (px ps ! i))) (Num (pz ps ! i)) 0 []"
  have r: "renderEvent (Some e) c = Inr ?c'"
    using assms(1,2) by (rule renderEvent_particles)
  have "?objs ! (2 * i) = particle_track ps i"
    using pairs_nth [OF assms(3), of "particle_track ps" "particle_marker ps"] by simp
  then have t: "particleMeshes ?c' ! (2 * i) = TrackLine ?pts (particle_color ps i)"
    using particle_track_in_range [OF assms(3,4,5)] by simp
  have n: "?pts ! j =
        (let t = real j / 50;
             pt = sqrt (px ps ! i * px ps ! i + py ps ! i * py ps ! i);
             phi = atan2 (py ps ! i) (px ps ! i);
             r = t * min (pt / 20) 3.0;
             x = r * cos phi;
             y = r * sin phi;
             z = t * (pz ps ! i) / 10
         in Vector3 (Num x) (Num z) (Num y))"
    using assms(6) by (simp add: points_loop_nth sample_point_Num Let_def)
  from r t n points_loop_length show ?thesis
    by blast
qed

text \<open>
  C9. The polyline and the marker of particle \<open>i\<close> have the same colour, and that colour
  is determined by \<open>|pdg_id\<^sub>i|\<close> alone: red (\<open>0xff0000\<close>) for 11, green (\<open>0x00ff00\<close>) for 13,
  yellow (\<open>0xffff00\<close>) for 22 and cyan (\<open>0x00ffff\<close>) for every other code.
\<close>

theorem track_and_marker_color:
  assumes "scene c = Some sc" and "particles e = Some ps" and "i < length (px ps)"
    and "length (pdg_id ps) = length (px ps)"
  shows "\<exists>c' pts col. renderEvent (Some e) c = Inr c'
     \<and> particleMeshes c' ! (2 * i) = TrackLine pts col
     \<and> particleMeshes c' ! (2 * i + 1) = SphereMesh 0.05 col (Vector3 (Num 0) (Num 0) (Num 0))
     \<and> col = (if \<bar>pdg_id ps ! i\<bar> = 11 then red
              else if \<bar>pdg_id ps ! i\<bar> = 13 then green
              else if \<bar>pdg_id ps ! i\<bar> = 22 then yellow
              else cyan)
     \<and> red = 16711680 \<and> green = 65280 \<and> yellow = 16776960 \<and> cyan = 65535"
proof -
  let ?objs = "particle_objects ps 0"
  let ?c' = "c\<lparr>scene := Some (fold remove1 (particleMeshes c) sc @ ?objs), particleMeshes := ?objs\<rparr>"
  have r: "renderEvent (Some e) c = Inr ?c'"
    using assms(1,2) by (rule renderEvent_particles)
  have "?objs ! (2 * i) = particle_track ps i" and "?objs ! (2 * i + 1) = particle_marker ps i"
    using pairs_nth [OF assms(3), of "particle_track ps" "particle_marker ps"] by simp_all
  then have t: "particleMeshes ?c' ! (2 * i) = TrackLine (line_points (particle_track ps i)) (particle_color ps i)"
    and m: "particleMeshes ?c' ! (2 * i + 1) =
        SphereMesh 0.05 (particle_color ps i) (Vector3 (Num 0) (Num 0) (Num 0))"
    by (simp_all add: particle_track_def particle_marker_def Let_def)
  have "i < length (pdg_id ps)"
    using assms(3,4) by simp
  from particle_color_in_range [OF this] r t m show ?thesis
    unfolding red_def green_def yellow_def cyan_def by blast
qed

lemma example_particles_of: "particles example_event = Some example_particles"
  by (simp add: example_event_def)

lemma example_lengths:
  "length (px example_particles) = 2" "length (py example_particles) = length (px example_particles)"
  "length (pz example_particles) = length (px example_particles)"
  "length (pdg_id example_particles) = length (px example_particles)"
  by (simp_all add: example_particles_def)

theorem renderEvent_without_particles_witness:
  "scene ready_component \<noteq> None
   \<and> (\<exists>c'. renderEvent None ready_component = Inr c' \<and> particleMeshes c' = [])
   \<and> (\<exists>c'. renderEvent (Some \<lparr>event_id = ''a1b2c3d4e5'', num_particles = 0, particles = None\<rparr>)
          ready_component = Inr c' \<and> particleMeshes c' = [])
   \<and> particleMeshes initial_component = []
   \<and> (\<exists>c'. renderEvent None initial_component = Inr c' \<and> particleMeshes c' = [])"
  using renderEvent_without_particles [of ready_component None initial_window]
    renderEvent_without_particles [of ready_component
      "Some \<lparr>event_id = ''a1b2c3d4e5'', num_particles = 0, particles = None\<rparr>" initial_window]
    renderEvent_without_particles [of initial_component None initial_window]
  by (auto simp: ready_scene initial_component_def)

lemma sqrt_25: "sqrt 25 = 5"
  by (rule real_sqrt_unique) simp_all

lemma sqrt_25_9: "sqrt (25 / 9) = 5 / 3"
  by (rule real_sqrt_unique) (simp_all add: power2_eq_square)

lemma atan2_4_3: "cos (atan2 4 3) = 3 / 5 \<and> sin (atan2 4 3) = 4 / 5"
  by (simp add: atan2_def cos_arctan sin_arctan power2_eq_square sqrt_25_9)

theorem track_sample_points_witness:
  "scene ready_component \<noteq> None \<and> particles example_event = Some example_particles
   \<and> 0 < length (px example_particles)
   \<and> length (py example_particles) = length (px example_particles)
   \<and> length (pz example_particles) = length (px example_particles) \<and> (50::nat) \<le> 50
   \<and> (\<exists>c' pts col. renderEvent (Some example_event) ready_component = Inr c'
        \<and> particleMeshes c' ! 0 = TrackLine pts col \<and> length pts = 51
        \<and> pts ! 50 = Vector3 (Num (3 / 20)) (Num 1) (Num (1 / 5)))"
proof -
  have i: "0 < length (px example_particles)"
    by (simp add: example_particles_def)
  have j: "(50::nat) \<le> 50"
    by simp
  from track_sample_points [OF ready_scene example_particles_of i example_lengths(2,3) j]
  obtain c' pts col where "renderEvent (Some example_event) ready_component = Inr c'"
    and "particleMeshes c' ! 0 = TrackLine pts col" and "length pts = 51"
    and "pts ! 50 = Vector3 (Num (3 / 20)) (Num 1) (Num (1 / 5))"
    by (auto simp: example_particles_def Let_def sqrt_25 atan2_4_3)
  then have "\<exists>c' pts col. renderEvent (Some example_event) ready_component = Inr c'
        \<and> particleMeshes c' ! 0 = TrackLine pts col \<and> length pts = 51
        \<and> pts ! 50 = Vector3 (Num (3 / 20)) (Num 1) (Num (1 / 5))"
    by blast
  with i example_particles_of example_lengths show ?thesis
    by (simp add: ready_scene)
qed

theorem track_and_marker_color_witness:
  "scene ready_component \<noteq> None \<and> particles example_event = Some example_particles
   \<and> 1 < length (px example_particles)
   \<and> length (pdg_id example_particles) = length (px example_particles)
   \<and> pdg_id example_particles ! 1 = - 13
   \<and> (\<exists>c' pts. renderEvent (Some example_event) ready_component = Inr c'
        \<and> particleMeshes c' ! 2 = TrackLine pts green
        \<and> particleMeshes c' ! 3 = SphereMesh 0.05 green (Vector3 (Num 0) (Num 0) (Num 0)))"
proof -
  have i: "1 < length (px example_particles)"
    by (simp add: example_particles_def)
  have g: "pdg_id example_particles ! 1 = - 13"
    by (simp add: example_particles_def)
  from track_and_marker_color [OF ready_scene example_particles_of i example_lengths(4)]
  obtain c' pts where "renderEvent (Some example_event) ready_component = Inr c'"
    and "particleMeshes c' ! 2 = TrackLine pts green"
    and "particleMeshes c' ! 3 = SphereMesh 0.05 green (Vector3 (Num 0) (Num 0) (Num 0))"
    unfolding g by auto
  then have "\<exists>c' pts. renderEvent (Some example_event) ready_component = Inr c'
        \<and> particleMeshes c' ! 2 = TrackLine pts green
        \<and> particleMeshes c' ! 3 = SphereMesh 0.05 green (Vector3 (Num 0) (Num 0) (Num 0))"
    by blast
  with i g example_particles_of example_lengths show ?thesis
    by (simp add: ready_scene)
qed







text \<open>
  C2. Teardown does not stop the render loop nor remove the resize listener. After
  \<open>mounted\<close> and \<open>beforeUnmount\<close>, with renderer and controls disposed, the callback
  \<open>animate\<close> still waits for the next frame and \<open>onWindowResize\<close> is still registered; the
  next frame runs \<open>animate\<close>, which renders on the disposed renderer and asks for the frame
  after; a resize of the window still calls the handler.
\<close>

theorem teardown_leaves_loop_and_listener:
  "\<exists>c w c2 w2. mounted None None example_container (initial_component, initial_window) = Inr (c, w)
     \<and> animationFrames (snd (beforeUnmount (c, w))) = [Animate]
     \<and> resizeListeners (snd (beforeUnmount (c, w))) = [OnWindowResize]
     \<and> map_option renderer_disposed (renderer (fst (beforeUnmount (c, w)))) = Some True
     \<and> display_frame None (beforeUnmount (c, w)) = Inr (c2, w2)
     \<and> animationFrames w2 = [Animate]
     \<and> map_option frames_rendered (renderer c2) = Some 2
     \<and> resizeListeners w2 = [OnWindowResize]
     \<and> window_resized None (c2, w2) = Inr (c2, w2)"
  by (simp add: mounted_def initThreeJS_def createDetectorGeometry_def add_detector_mesh_def
      scene_add_def animate_def beforeUnmount_def display_frame_def window_resized_def
      onWindowResize_def addEventListener_def requestAnimationFrame_def
      initial_component_def initial_window_def Let_def)

end
